theory Spec2Isabelle
  imports Main
begin

section \<open>Data model\<close>

text \<open>
  The interfaces of \<^verbatim>\<open>src/src/App.tsx\<close> (lines 4-15). The field names carry a
  prefix, because \<^verbatim>\<open>countdown\<close> and \<^verbatim>\<open>status\<close> are also names of state cells of
  the component and \<^verbatim>\<open>id\<close> is a constant of HOL.
\<close>

record CapturedImage =
  image_id :: string
  image_url :: string
  image_timestamp :: string

record CaptureStatus =
  snap_active :: bool
  snap_countdown :: "int option"
  snap_status :: string
  snap_frame :: "string option"

text \<open>
  The four requests the component sends, and what a \<^verbatim>\<open>fetch\<close> can come back with:
  the promise rejects (transport error), or a response arrives with its \<^verbatim>\<open>ok\<close> flag
  (true exactly for a 2xx status) and a body that \<^verbatim>\<open>response.json()\<close> either parses
  (\<open>Some\<close>) or rejects (\<open>None\<close>).
\<close>

datatype request = GetImages | PostStartCapture | PostStopCapture | GetCaptureStatus

datatype 'a response = Rejected | Response bool "'a option"

text \<open>The values thrown inside the \<^verbatim>\<open>try\<close> blocks.\<close>

datatype exn = FetchRejected | JsonRejected | Error string

text \<open>
  A block of statements completes normally or abruptly (by a throw); either way it leaves
  a state behind.
\<close>

datatype 'a completion = Normal 'a | Abrupt exn 'a

text \<open>
  The state. The first seven fields are the \<^verbatim>\<open>useState\<close> cells of lines 18-24.
  The others are the environment the handlers act on:
  \<^item> \<open>timers\<close> is the browser's table of active intervals, each a handle paired with the
    number of the render whose closure it calls back;
  \<^item> \<open>next_handle\<close> is the handle the next \<^verbatim>\<open>setInterval\<close> returns;
  \<^item> \<open>requests\<close> logs every \<^verbatim>\<open>fetch\<close> issued, in order;
  \<^item> \<open>render\<close> numbers the latest call of \<^verbatim>\<open>App\<close>, whose closures are the ones bound to
    the buttons on screen;
  \<^item> \<open>pollInterval\<close> holds the variable of line 88. \<^verbatim>\<open>let pollInterval\<close> stands in the
    body of \<^verbatim>\<open>function App()\<close> (line 17), so every call of \<^verbatim>\<open>App\<close>, that is every
    render, declares a variable of its own, undefined (\<open>None\<close>) until a closure of that
    same render assigns it. The state setters, in contrast, are shared by all renders.
\<close>

record world =
  isCapturing :: bool
  countdown :: "int option"
  capturedImages :: "CapturedImage list"
  status :: string
  error :: "string option"
  currentFrame :: "string option"
  selectedImage :: "CapturedImage option"
  render :: nat
  pollInterval :: "nat \<Rightarrow> nat option"
  timers :: "(nat \<times> nat) list"
  next_handle :: nat
  requests :: "request list"

section \<open>Primitives\<close>

definition setIsCapturing :: "bool \<Rightarrow> world \<Rightarrow> world" where
  "setIsCapturing v w = w\<lparr>isCapturing := v\<rparr>"

definition setCountdown :: "int option \<Rightarrow> world \<Rightarrow> world" where
  "setCountdown v w = w\<lparr>countdown := v\<rparr>"

definition setCapturedImages :: "CapturedImage list \<Rightarrow> world \<Rightarrow> world" where
  "setCapturedImages v w = w\<lparr>capturedImages := v\<rparr>"

definition setStatus :: "string \<Rightarrow> world \<Rightarrow> world" where
  "setStatus v w = w\<lparr>status := v\<rparr>"

definition setError :: "string option \<Rightarrow> world \<Rightarrow> world" where
  "setError v w = w\<lparr>error := v\<rparr>"

definition setCurrentFrame :: "string option \<Rightarrow> world \<Rightarrow> world" where
  "setCurrentFrame v w = w\<lparr>currentFrame := v\<rparr>"

definition setSelectedImage :: "CapturedImage option \<Rightarrow> world \<Rightarrow> world" where
  "setSelectedImage v w = w\<lparr>selectedImage := v\<rparr>"

definition fetch :: "request \<Rightarrow> world \<Rightarrow> world" where
  "fetch q w = w\<lparr>requests := requests w @ [q]\<rparr>"

text \<open>
  \<^verbatim>\<open>setInterval\<close> registers the callback of render \<open>r\<close> and returns a fresh handle.
  \<^verbatim>\<open>clearInterval\<close> removes the handle it is given; given \<^verbatim>\<open>undefined\<close>, or a handle
  that is not active, it does nothing.
\<close>

definition setInterval :: "nat \<Rightarrow> world \<Rightarrow> nat \<times> world" where
  "setInterval r w =
     (next_handle w,
      w\<lparr>timers := timers w @ [(next_handle w, r)], next_handle := Suc (next_handle w)\<rparr>)"

definition clearInterval :: "nat option \<Rightarrow> world \<Rightarrow> world" where
  "clearInterval v w =
     (case v of
        None \<Rightarrow> w
      | Some h \<Rightarrow> w\<lparr>timers := filter (\<lambda>t. fst t \<noteq> h) (timers w)\<rparr>)"

definition try_catch ::
  "world completion \<Rightarrow> (exn \<Rightarrow> world \<Rightarrow> world completion) \<Rightarrow> world completion" where
  "try_catch c handler = (case c of Normal w \<Rightarrow> Normal w | Abrupt e w \<Rightarrow> handler e w)"

text \<open>
  The state an asynchronous call leaves behind once its promise has settled. A call that
  is not awaited (\<^verbatim>\<open>fetchImages()\<close> in lines 27 and 102, the handlers bound to the
  buttons) passes nothing else to its caller.
\<close>

fun settled :: "world completion \<Rightarrow> world" where
  "settled (Normal w) = w"
| "settled (Abrupt e w) = w"

section \<open>The handlers\<close>

text \<open>
  Each handler takes the reply its request will get, and the number \<open>r\<close> of the render
  whose closure is running where it touches \<^verbatim>\<open>pollInterval\<close>. Its \<^verbatim>\<open>try\<close> block is
  cut at the \<^verbatim>\<open>await\<close> of the request: \<open>_begin\<close> holds the statements that run when the
  handler is called, up to and including the call of \<^verbatim>\<open>fetch\<close>; \<open>_rest\<close> holds the rest of
  the block, which runs when the reply has arrived, on the state as it is then. Other
  handlers can run in between.
  \<^item> \<open>_try\<close> is the whole \<^verbatim>\<open>try\<close> block and the handler's own name the whole handler,
    with nothing else running while the request is outstanding;
  \<^item> \<open>_resume\<close> is the part of the handler that runs from the reply on: the rest of the
    \<^verbatim>\<open>try\<close> block, and the \<^verbatim>\<open>catch\<close> block if it throws.
\<close>

subsection \<open>fetchImages (lines 30-43)\<close>

definition fetchImages_begin :: "world \<Rightarrow> world" where
  "fetchImages_begin w =
     (let w1 = setError None w
      in fetch GetImages w1)"

definition fetchImages_rest :: "CapturedImage list response \<Rightarrow> world \<Rightarrow> world completion" where
  "fetchImages_rest resp w =
     (case resp of
        Rejected \<Rightarrow> Abrupt FetchRejected w
      | Response ok body \<Rightarrow>
          if \<not> ok then Abrupt (Error ''Server error'') w
          else (case body of
                  None \<Rightarrow> Abrupt JsonRejected w
                | Some data \<Rightarrow> Normal (setCapturedImages data w)))"

definition fetchImages_try :: "CapturedImage list response \<Rightarrow> world \<Rightarrow> world completion" where
  "fetchImages_try resp w = fetchImages_rest resp (fetchImages_begin w)"

definition fetchImages_catch :: "exn \<Rightarrow> world \<Rightarrow> world completion" where
  "fetchImages_catch e w =
     Normal (setError (Some ''Unable to connect to the photo booth server. Please make sure the backend server is running.'') w)"

definition fetchImages_resume :: "CapturedImage list response \<Rightarrow> world \<Rightarrow> world completion" where
  "fetchImages_resume resp w = try_catch (fetchImages_rest resp w) fetchImages_catch"

definition fetchImages :: "CapturedImage list response \<Rightarrow> world \<Rightarrow> world completion" where
  "fetchImages resp w = try_catch (fetchImages_try resp w) fetchImages_catch"

subsection \<open>pollCaptureStatus (lines 90-111)\<close>

text \<open>
  The callback handed to \<^verbatim>\<open>setInterval\<close>: one tick of the loop started in render \<open>r\<close>.
  The call \<^verbatim>\<open>fetchImages()\<close> of line 102 is not awaited; \<open>sync\<close> stands for what that call
  does before the tick goes on. In the browser that is \<open>fetchImages_begin\<close>, and
  \<open>fetchImages_resume\<close> follows when the reply for the images arrives (\<open>tick_resume\<close>);
  where the tick is taken as a whole, images reply included, it is all of \<open>fetchImages\<close>
  (\<open>tick_try\<close>, \<open>tick\<close>).
\<close>

definition tick_begin :: "world \<Rightarrow> world" where
  "tick_begin w = fetch GetCaptureStatus w"

definition tick_rest ::
  "(world \<Rightarrow> world) \<Rightarrow> CaptureStatus response \<Rightarrow> world \<Rightarrow> world completion" where
  "tick_rest sync resp w =
     (case resp of
        Rejected \<Rightarrow> Abrupt FetchRejected w
      | Response ok body \<Rightarrow>
          if \<not> ok then Abrupt (Error ''Server error'') w
          else (case body of
                  None \<Rightarrow> Abrupt JsonRejected w
                | Some data \<Rightarrow>
                    (let w2 = setCountdown (snap_countdown data) w;
                         w3 = setStatus (snap_status data) w2;
                         w4 = setCurrentFrame (snap_frame data) w3
                     in if snap_status data = ''captured''
                        then Normal (sync w4)
                        else Normal w4)))"

definition tick_try ::
  "CaptureStatus response \<Rightarrow> CapturedImage list response \<Rightarrow> world \<Rightarrow> world completion" where
  "tick_try resp images_resp w =
     tick_rest (\<lambda>w4. settled (fetchImages images_resp w4)) resp (tick_begin w)"

definition tick_catch :: "nat \<Rightarrow> exn \<Rightarrow> world \<Rightarrow> world completion" where
  "tick_catch r e w =
     (let w1 = setError (Some ''Lost connection to the photo booth server.'') w;
          w2 = clearInterval (pollInterval w1 r) w1
      in Normal (setIsCapturing False w2))"

definition tick_resume :: "nat \<Rightarrow> CaptureStatus response \<Rightarrow> world \<Rightarrow> world completion" where
  "tick_resume r resp w = try_catch (tick_rest fetchImages_begin resp w) (tick_catch r)"

definition tick ::
  "nat \<Rightarrow> CaptureStatus response \<Rightarrow> CapturedImage list response \<Rightarrow> world \<Rightarrow> world completion" where
  "tick r resp images_resp w = try_catch (tick_try resp images_resp w) (tick_catch r)"

definition pollCaptureStatus :: "nat \<Rightarrow> world \<Rightarrow> world" where
  "pollCaptureStatus r w =
     (case setInterval r w of
        (h, w1) \<Rightarrow> w1\<lparr>pollInterval := (pollInterval w1)(r := Some h)\<rparr>)"

subsection \<open>startCapture (lines 45-64)\<close>

definition startCapture_begin :: "world \<Rightarrow> world" where
  "startCapture_begin w =
     (let w1 = setError None w;
          w2 = setIsCapturing True w1;
          w3 = setStatus ''Starting capture session...'' w2
      in fetch PostStartCapture w3)"

definition startCapture_rest :: "nat \<Rightarrow> unit response \<Rightarrow> world \<Rightarrow> world completion" where
  "startCapture_rest r resp w =
     (case resp of
        Rejected \<Rightarrow> Abrupt FetchRejected w
      | Response ok body \<Rightarrow>
          if \<not> ok then Abrupt (Error ''Failed to start capture'') w
          else Normal (pollCaptureStatus r w))"

definition startCapture_try :: "nat \<Rightarrow> unit response \<Rightarrow> world \<Rightarrow> world completion" where
  "startCapture_try r resp w = startCapture_rest r resp (startCapture_begin w)"

definition startCapture_catch :: "exn \<Rightarrow> world \<Rightarrow> world completion" where
  "startCapture_catch e w =
     (let w1 = setStatus ''Failed to start capture'' w;
          w2 = setError (Some ''Unable to start capture. Please make sure the backend server is running.'') w1
      in Normal (setIsCapturing False w2))"

definition startCapture_resume :: "nat \<Rightarrow> unit response \<Rightarrow> world \<Rightarrow> world completion" where
  "startCapture_resume r resp w = try_catch (startCapture_rest r resp w) startCapture_catch"

definition startCapture :: "nat \<Rightarrow> unit response \<Rightarrow> world \<Rightarrow> world completion" where
  "startCapture r resp w = try_catch (startCapture_try r resp w) startCapture_catch"

subsection \<open>stopCapture (lines 66-86)\<close>

definition stopCapture_begin :: "world \<Rightarrow> world" where
  "stopCapture_begin w =
     (let w1 = setError None w;
          w2 = setStatus ''Stopping capture session...'' w1
      in fetch PostStopCapture w2)"

definition stopCapture_rest :: "nat \<Rightarrow> unit response \<Rightarrow> world \<Rightarrow> world completion" where
  "stopCapture_rest r resp w =
     (case resp of
        Rejected \<Rightarrow> Abrupt FetchRejected w
      | Response ok body \<Rightarrow>
          if \<not> ok then Abrupt (Error ''Failed to stop capture'') w
          else (let w4 = setIsCapturing False w;
                    w5 = setStatus ''Capture session stopped'' w4
                in Normal (clearInterval (pollInterval w5 r) w5)))"

definition stopCapture_try :: "nat \<Rightarrow> unit response \<Rightarrow> world \<Rightarrow> world completion" where
  "stopCapture_try r resp w = stopCapture_rest r resp (stopCapture_begin w)"

definition stopCapture_catch :: "exn \<Rightarrow> world \<Rightarrow> world completion" where
  "stopCapture_catch e w =
     (let w1 = setStatus ''Failed to stop capture'' w;
          w2 = setError (Some ''Unable to stop capture. Please make sure the backend server is running.'') w1
      in Normal (setIsCapturing False w2))"

definition stopCapture_resume :: "nat \<Rightarrow> unit response \<Rightarrow> world \<Rightarrow> world completion" where
  "stopCapture_resume r resp w = try_catch (stopCapture_rest r resp w) stopCapture_catch"

definition stopCapture :: "nat \<Rightarrow> unit response \<Rightarrow> world \<Rightarrow> world completion" where
  "stopCapture r resp w = try_catch (stopCapture_try r resp w) stopCapture_catch"

subsection \<open>openModal and closeModal (lines 113-119)\<close>

definition openModal :: "CapturedImage \<Rightarrow> world \<Rightarrow> world" where
  "openModal img w = setSelectedImage (Some img) w"

definition closeModal :: "world \<Rightarrow> world" where
  "closeModal w = setSelectedImage None w"

section \<open>The component in the browser\<close>

text \<open>
  \<^verbatim>\<open>App\<close> starts from the initial values of its state cells (lines 18-24). After an
  event whose handler sets state React calls \<^verbatim>\<open>App\<close> again: the render gets the next
  number and a \<^verbatim>\<open>pollInterval\<close> of its own, not yet assigned. In particular a render
  lies between a click on the start button and any click on the stop button, since the
  two buttons are never on screen together (line 142).
\<close>

definition initial :: world where
  "initial =
     \<lparr>isCapturing = False, countdown = None, capturedImages = [], status = '''',
      error = None, currentFrame = None, selectedImage = None,
      render = 0, pollInterval = (\<lambda>r. None), timers = [], next_handle = 0,
      requests = []\<rparr>"

definition rerender :: "world \<Rightarrow> world" where
  "rerender w =
     w\<lparr>render := Suc (render w), pollInterval := (pollInterval w)(Suc (render w) := None)\<rparr>"

text \<open>
  The events, each with the replies its requests get:
  \<^item> \<open>Mount\<close>: the effect of lines 26-28 runs \<^verbatim>\<open>fetchImages\<close>;
  \<^item> \<open>ClickStart\<close>, \<open>ClickStop\<close>: the buttons of lines 142-178; the page shows the stop
    button while \<^verbatim>\<open>isCapturing\<close> holds and the start button otherwise, and each is bound
    to the handler of the latest render;
  \<^item> \<open>TimerFires h\<close>: the interval with handle \<open>h\<close> fires, if it is still active, and
    calls back the closure it was registered with;
  \<^item> \<open>ClickImage\<close>, \<open>ClickModal\<close>: lines 181-210.
  In \<open>step\<close> a handler runs to its end, replies included, before the next event is
  taken; what the handlers do when they interleave is stated on their \<open>_begin\<close> and
  \<open>_resume\<close> parts.
\<close>

datatype event =
    Mount "CapturedImage list response"
  | ClickStart "unit response"
  | ClickStop "unit response"
  | TimerFires nat "CaptureStatus response" "CapturedImage list response"
  | ClickImage CapturedImage
  | ClickModal

fun step :: "event \<Rightarrow> world \<Rightarrow> world" where
  "step (Mount resp) w = rerender (settled (fetchImages resp w))"
| "step (ClickStart resp) w =
     (if isCapturing w then w else rerender (settled (startCapture (render w) resp w)))"
| "step (ClickStop resp) w =
     (if isCapturing w then rerender (settled (stopCapture (render w) resp w)) else w)"
| "step (TimerFires h resp images_resp) w =
     (case map_of (timers w) h of
        None \<Rightarrow> w
      | Some r \<Rightarrow> rerender (settled (tick r resp images_resp w)))"
| "step (ClickImage img) w =
     (if img \<in> set (capturedImages w) then rerender (openModal img w) else w)"
| "step ClickModal w =
     (if selectedImage w = None then w else rerender (closeModal w))"

fun run :: "event list \<Rightarrow> world \<Rightarrow> world" where
  "run [] w = w"
| "run (e # es) w = run es (step e w)"

section \<open>Replies, invariant and sample inputs\<close>

text \<open>
  How the handlers read a reply. \<^verbatim>\<open>startCapture\<close> and \<^verbatim>\<open>stopCapture\<close> only test
  \<^verbatim>\<open>response.ok\<close>; \<^verbatim>\<open>fetchImages\<close> and the poll tick also parse the body, and get
  nothing when the transport failed, the status was not 2xx or the body was not JSON.
\<close>

definition accepted :: "'a response \<Rightarrow> bool" where
  "accepted resp = (case resp of Rejected \<Rightarrow> False | Response ok body \<Rightarrow> ok)"

definition delivered :: "'a response \<Rightarrow> 'a option" where
  "delivered resp =
     (case resp of Rejected \<Rightarrow> None | Response ok body \<Rightarrow> if ok then body else None)"

text \<open>The handles of the polling loops that are running.\<close>

definition handles :: "world \<Rightarrow> nat set" where
  "handles w = fst ` set (timers w)"

text \<open>
  What holds between events: handles are unique and were all handed out already; every
  running loop was started by an earlier render, whose \<^verbatim>\<open>pollInterval\<close> still holds its
  handle; the \<^verbatim>\<open>pollInterval\<close> of the latest render is unassigned.
\<close>

definition consistent :: "world \<Rightarrow> bool" where
  "consistent w \<longleftrightarrow>
     distinct (map fst (timers w)) \<and>
     (\<forall>t \<in> set (timers w).
        fst t < next_handle w \<and> snd t < render w \<and> pollInterval w (snd t) = Some (fst t)) \<and>
     pollInterval w (render w) = None"

text \<open>The number of times \<^verbatim>\<open>fetchImages\<close> ran: each run issues one request for the images.\<close>

definition gallery_syncs :: "world \<Rightarrow> nat" where
  "gallery_syncs w = count_list (requests w) GetImages"

text \<open>
  Following the words of the specification, not the code: the number of distinct
  transitions into \<^verbatim>\<open>"captured"\<close> along a sequence of polled statuses, that is the number
  of snapshots that report \<^verbatim>\<open>"captured"\<close> when the status before them was another one.
\<close>

fun transitions_into_captured :: "string \<Rightarrow> string list \<Rightarrow> nat" where
  "transitions_into_captured prev [] = 0"
| "transitions_into_captured prev (s # ss) =
     (if s = ''captured'' \<and> prev \<noteq> ''captured'' then 1 else 0) +
     transitions_into_captured s ss"

text \<open>Sample replies, snapshots and a running session, for the concrete runs below.\<close>

definition ok_reply :: "unit response" where
  "ok_reply = Response True (Some ())"

definition http_500 :: "'a response" where
  "http_500 = Response False None"

definition photo :: CapturedImage where
  "photo = \<lparr>image_id = ''1'', image_url = ''/images/1.jpg'', image_timestamp = ''12:00:00''\<rparr>"

definition idle_snapshot :: CaptureStatus where
  "idle_snapshot =
     \<lparr>snap_active = True, snap_countdown = None, snap_status = ''idle'', snap_frame = None\<rparr>"

definition counting_snapshot :: CaptureStatus where
  "counting_snapshot =
     \<lparr>snap_active = True, snap_countdown = Some 3, snap_status = ''counting'',
      snap_frame = Some ''AAAA''\<rparr>"

definition captured_snapshot :: CaptureStatus where
  "captured_snapshot =
     \<lparr>snap_active = True, snap_countdown = None, snap_status = ''captured'',
      snap_frame = Some ''BBBB''\<rparr>"

text \<open>
  The page has loaded an empty gallery and the user has pressed the start button, with
  success: the loop with handle 0 runs, started by render 1; render 2 is on screen.
\<close>

definition session :: world where
  "session = run [Mount (Response True (Some [])), ClickStart ok_reply] initial"

section \<open>Basic facts\<close>

lemmas setters = setIsCapturing_def setCountdown_def setCapturedImages_def setStatus_def
  setError_def setCurrentFrame_def setSelectedImage_def fetch_def

lemmas handlers = fetchImages_def fetchImages_try_def fetchImages_catch_def
  fetchImages_begin_def fetchImages_rest_def fetchImages_resume_def
  tick_def tick_try_def tick_catch_def tick_begin_def tick_rest_def tick_resume_def
  pollCaptureStatus_def
  startCapture_def startCapture_try_def startCapture_catch_def
  startCapture_begin_def startCapture_rest_def startCapture_resume_def
  stopCapture_def stopCapture_try_def stopCapture_catch_def
  stopCapture_begin_def stopCapture_rest_def stopCapture_resume_def
  try_catch_def setInterval_def clearInterval_def

lemmas concrete = ok_reply_def http_500_def photo_def idle_snapshot_def counting_snapshot_def
  captured_snapshot_def initial_def rerender_def openModal_def closeModal_def

lemma session_eval:
  "session = \<lparr>isCapturing = True, countdown = None, capturedImages = [],
      status = ''Starting capture session...'', error = None, currentFrame = None,
      selectedImage = None, render = 2,
      pollInterval = (\<lambda>r. if r = 1 then Some 0 else None), timers = [(0, 1)], next_handle = 1,
      requests = [GetImages, PostStartCapture]\<rparr>"
  by (auto simp: session_def concrete handlers setters Let_def fun_eq_iff)

lemma fetchImages_env:
  "timers (settled (fetchImages resp w)) = timers w"
  "next_handle (settled (fetchImages resp w)) = next_handle w"
  "pollInterval (settled (fetchImages resp w)) = pollInterval w"
  "render (settled (fetchImages resp w)) = render w"
  "isCapturing (settled (fetchImages resp w)) = isCapturing w"
  by (auto simp: handlers setters Let_def split: response.splits option.splits)

lemma tick_success_env:
  assumes "delivered resp = Some data"
  shows "timers (settled (tick r resp ir w)) = timers w"
    and "next_handle (settled (tick r resp ir w)) = next_handle w"
    and "pollInterval (settled (tick r resp ir w)) = pollInterval w"
    and "render (settled (tick r resp ir w)) = render w"
    and "isCapturing (settled (tick r resp ir w)) = isCapturing w"
  using assms
  by (auto simp: delivered_def tick_def tick_try_def tick_begin_def tick_rest_def try_catch_def
      fetchImages_env setters Let_def
      split: response.splits option.splits if_splits)

lemma tick_failure_env:
  assumes "delivered resp = None"
  shows "settled (tick r resp ir w) =
     setIsCapturing False (clearInterval (pollInterval w r)
       (setError (Some ''Lost connection to the photo booth server.'') (fetch GetCaptureStatus w)))"
  using assms
  by (auto simp: delivered_def tick_def tick_try_def tick_begin_def tick_rest_def tick_catch_def
      try_catch_def setters Let_def
      split: response.splits option.splits if_splits)

text \<open>
  The parts compose to the whole handlers. A tick taken as a whole is its own two parts,
  followed by the second part of \<^verbatim>\<open>fetchImages\<close> when it has called that.
\<close>

lemma handlers_cut_at_await:
  "fetchImages resp w = fetchImages_resume resp (fetchImages_begin w)"
  "startCapture r ureply w = startCapture_resume r ureply (startCapture_begin w)"
  "stopCapture r ureply w = stopCapture_resume r ureply (stopCapture_begin w)"
  by (simp_all add: fetchImages_def fetchImages_try_def fetchImages_resume_def
      startCapture_def startCapture_try_def startCapture_resume_def
      stopCapture_def stopCapture_try_def stopCapture_resume_def)

lemma tick_cut_at_await:
  "settled (tick r sresp resp w) =
     (case delivered sresp of
        None \<Rightarrow> settled (tick_resume r sresp (tick_begin w))
      | Some data \<Rightarrow>
          if snap_status data = ''captured''
          then settled (fetchImages_resume resp (settled (tick_resume r sresp (tick_begin w))))
          else settled (tick_resume r sresp (tick_begin w)))"
  by (auto simp: delivered_def tick_def tick_try_def tick_resume_def tick_rest_def try_catch_def
      handlers_cut_at_await Let_def split: response.splits option.splits)

section \<open>The invariant holds in every reachable state\<close>

lemma consistent_initial: "consistent initial"
  by (simp add: consistent_def initial_def)

lemma consistent_rerender_clear:
  assumes "consistent w"
  shows "consistent (rerender (clearInterval v w))"
  using assms
  by (cases v)
    (auto simp: consistent_def rerender_def clearInterval_def distinct_map_filter less_Suc_eq)

lemma consistent_env:
  assumes "consistent w" and "timers w' = timers w" and "next_handle w' = next_handle w"
    and "pollInterval w' = pollInterval w" and "render w' = render w"
  shows "consistent (rerender w')"
  using assms by (auto simp: consistent_def rerender_def less_Suc_eq)

lemma consistent_start:
  assumes "consistent w"
  shows "consistent (rerender (settled (startCapture (render w) resp w)))"
proof (cases "accepted resp")
  case False
  then show ?thesis
    using assms
    by (intro consistent_env [of w])
      (auto simp: accepted_def handlers setters Let_def split: response.splits)
next
  case True
  then have "settled (startCapture (render w) resp w) =
      pollCaptureStatus (render w) (fetch PostStartCapture
        (setStatus ''Starting capture session...'' (setIsCapturing True (setError None w))))"
    by (auto simp: accepted_def startCapture_def startCapture_try_def startCapture_begin_def
        startCapture_rest_def try_catch_def Let_def
        split: response.splits)
  then show ?thesis
    using assms
    by (auto simp: consistent_def rerender_def pollCaptureStatus_def setInterval_def setters
        less_Suc_eq)
qed

lemma consistent_stop:
  assumes "consistent w"
  shows "consistent (rerender (settled (stopCapture r resp w)))"
proof (cases "accepted resp")
  case False
  then show ?thesis
    using assms
    by (intro consistent_env [of w])
      (auto simp: accepted_def handlers setters Let_def split: response.splits)
next
  case True
  then have "settled (stopCapture r resp w) =
      clearInterval (pollInterval w r) (setStatus ''Capture session stopped''
        (setIsCapturing False (fetch PostStopCapture
          (setStatus ''Stopping capture session...'' (setError None w)))))"
    by (auto simp: accepted_def stopCapture_def stopCapture_try_def stopCapture_begin_def
        stopCapture_rest_def try_catch_def Let_def setters
        split: response.splits)
  moreover have "consistent (setStatus ''Capture session stopped''
        (setIsCapturing False (fetch PostStopCapture
          (setStatus ''Stopping capture session...'' (setError None w)))))"
    using assms by (simp add: consistent_def setters)
  ultimately show ?thesis
    by (simp add: consistent_rerender_clear)
qed

lemma consistent_tick:
  assumes "consistent w"
  shows "consistent (rerender (settled (tick r resp ir w)))"
proof (cases "delivered resp")
  case None
  have "consistent (setError (Some ''Lost connection to the photo booth server.'')
      (fetch GetCaptureStatus w))"
    using assms by (simp add: consistent_def setters)
  then have "consistent (rerender (clearInterval (pollInterval w r)
      (setError (Some ''Lost connection to the photo booth server.'') (fetch GetCaptureStatus w))))"
    by (rule consistent_rerender_clear)
  then show ?thesis
    by (simp add: tick_failure_env [OF None] consistent_def rerender_def setters)
next
  case (Some data)
  show ?thesis
    by (rule consistent_env [OF assms]) (simp_all add: tick_success_env [OF Some])
qed

lemma consistent_step:
  assumes "consistent w"
  shows "consistent (step e w)"
proof (cases e)
  case (Mount resp)
  then show ?thesis
    using consistent_env [OF assms, of "settled (fetchImages resp w)"]
    by (simp add: fetchImages_env)
next
  case (ClickStart resp)
  then show ?thesis using assms by (simp add: consistent_start)
next
  case (ClickStop resp)
  then show ?thesis using assms by (simp add: consistent_stop)
next
  case (TimerFires h resp ir)
  then show ?thesis using assms by (simp add: consistent_tick split: option.splits)
next
  case (ClickImage img)
  then show ?thesis
    using assms consistent_env [OF assms, of "openModal img w"]
    by (simp add: openModal_def setters)
next
  case ClickModal
  then show ?thesis
    using assms consistent_env [OF assms, of "closeModal w"]
    by (simp add: closeModal_def setters)
qed

lemma consistent_run:
  assumes "consistent w"
  shows "consistent (run es w)"
  using assms by (induction es arbitrary: w) (simp_all add: consistent_step)

lemma consistent_reachable: "consistent (run es initial)"
  by (rule consistent_run [OF consistent_initial])

lemma handle_active:
  assumes "consistent w" and "map_of (timers w) h = Some r"
  shows "pollInterval w r = Some h"
proof -
  from assms(2) have "(h, r) \<in> set (timers w)" by (rule map_of_SomeD)
  with assms(1) show ?thesis by (fastforce simp: consistent_def)
qed

text \<open>A handle that was handed out and is no longer active never becomes active again.\<close>

lemma step_handles:
  assumes "h < next_handle w" and "h \<notin> handles w"
  shows "h < next_handle (step e w) \<and> h \<notin> handles (step e w)"
proof (cases e)
  case (Mount resp)
  then show ?thesis using assms by (simp add: handles_def rerender_def fetchImages_env)
next
  case (ClickStart resp)
  then show ?thesis using assms
    by (auto simp: handles_def rerender_def handlers setters Let_def split: response.splits)
next
  case (ClickStop resp)
  then show ?thesis using assms
    by (auto simp: handles_def rerender_def handlers setters Let_def
        split: response.splits option.splits)
next
  case (TimerFires h' resp ir)
  show ?thesis
  proof (cases "delivered resp")
    case None
    then show ?thesis using assms TimerFires
      by (auto simp: handles_def rerender_def tick_failure_env clearInterval_def setters
          split: option.splits)
  next
    case (Some data)
    then show ?thesis using assms TimerFires
      by (auto simp: handles_def rerender_def tick_success_env split: option.splits)
  qed
next
  case (ClickImage img)
  then show ?thesis using assms by (simp add: handles_def rerender_def openModal_def setters)
next
  case ClickModal
  then show ?thesis using assms by (simp add: handles_def rerender_def closeModal_def setters)
qed

lemma run_handles:
  assumes "h < next_handle w" and "h \<notin> handles w"
  shows "h \<notin> handles (run es w)"
  using assms by (induction es arbitrary: w) (simp_all add: step_handles)

lemma inactive_timer_silent:
  assumes "h \<notin> handles w"
  shows "step (TimerFires h resp ir) w = w"
proof -
  from assms have "map_of (timers w) h = None"
    by (simp add: handles_def map_of_eq_None_iff)
  then show ?thesis by simp
qed

section \<open>The claims\<close>

text \<open>
  Claim C1. Take any state in which the invariant holds, as it does in every state the
  component can reach (\<open>consistent_reachable\<close>), whether \<^verbatim>\<open>isCapturing\<close> is true or
  false there. When a tick of a running polling loop gets no status (transport error,
  non-2xx response, or a body that is not JSON), the tick sets the error message, forces
  \<^verbatim>\<open>isCapturing\<close> to false and cancels its loop: whatever happens afterwards, the handle
  is never active again, so the timer event of that loop changes nothing any more.
\<close>

theorem poll_failure_stops_loop:
  assumes "consistent w" and "map_of (timers w) h = Some r" and "delivered resp = None"
  shows "error (step (TimerFires h resp ir) w) = Some ''Lost connection to the photo booth server.'' \<and>
    \<not> isCapturing (step (TimerFires h resp ir) w) \<and>
    (\<forall>es'. h \<notin> fst ` set (timers (run es' (step (TimerFires h resp ir) w))) \<and>
       (\<forall>resp' ir'. step (TimerFires h resp' ir') (run es' (step (TimerFires h resp ir) w)) =
          run es' (step (TimerFires h resp ir) w)))"
proof -
  let ?w' = "step (TimerFires h resp ir) w"
  have cell: "pollInterval w r = Some h" by (rule handle_active [OF assms(1) assms(2)])
  have w': "?w' = rerender (setIsCapturing False (clearInterval (Some h)
      (setError (Some ''Lost connection to the photo booth server.'') (fetch GetCaptureStatus w))))"
    using assms(2) cell by (simp add: tick_failure_env [OF assms(3)])
  have "(h, r) \<in> set (timers w)" using assms(2) by (rule map_of_SomeD)
  with assms(1) have "h < next_handle w" by (fastforce simp: consistent_def)
  then have fresh: "h < next_handle ?w'"
    unfolding w' by (simp add: rerender_def clearInterval_def setters)
  have gone: "h \<notin> handles ?w'"
    unfolding w' by (auto simp: handles_def rerender_def clearInterval_def setters)
  have never: "h \<notin> handles (run es' ?w')" for es'
    by (rule run_handles [OF fresh gone])
  have "error ?w' = Some ''Lost connection to the photo booth server.''"
    unfolding w' by (simp add: rerender_def clearInterval_def setters)
  moreover have "\<not> isCapturing ?w'"
    unfolding w' by (simp add: rerender_def clearInterval_def setters)
  moreover have "h \<notin> fst ` set (timers (run es' ?w'))" for es'
    using never [of es'] by (simp add: handles_def)
  moreover have "step (TimerFires h resp' ir') (run es' ?w') = run es' ?w'" for es' resp' ir'
    by (rule inactive_timer_silent [OF never])
  ultimately show ?thesis by blast
qed

text \<open>
  In the running session \<^verbatim>\<open>isCapturing\<close> is true and no error is shown; the tick of
  loop 0 gets a 500.
\<close>

theorem poll_failure_stops_loop_witness:
  "consistent session \<and> isCapturing session \<and> error session = None \<and>
   map_of (timers session) 0 = Some 1 \<and> delivered (http_500 :: CaptureStatus response) = None \<and>
   error (step (TimerFires 0 http_500 Rejected) session) =
     Some ''Lost connection to the photo booth server.'' \<and>
   \<not> isCapturing (step (TimerFires 0 http_500 Rejected) session) \<and>
   0 \<notin> fst ` set (timers (run [ClickStart ok_reply] (step (TimerFires 0 http_500 Rejected) session)))"
proof -
  have a: "consistent session"
    unfolding session_def by (rule consistent_reachable)
  have b: "map_of (timers session) 0 = Some 1" by (simp add: session_eval)
  have c: "delivered (http_500 :: CaptureStatus response) = None"
    by (simp add: delivered_def http_500_def)
  have d: "isCapturing session" "error session = None" by (simp_all add: session_eval)
  show ?thesis
    using a b c d poll_failure_stops_loop [OF a b c, of Rejected] by blast
qed

text \<open>
  Claim C2, evaluated on the code. The session is running: the loop with handle 0 was
  started by render 1 and is stored in the \<^verbatim>\<open>pollInterval\<close> of render 1. The stop
  button on screen belongs to render 2, whose \<^verbatim>\<open>pollInterval\<close> was never assigned. A
  successful stop sets \<^verbatim>\<open>isCapturing\<close> to false and the status to
  \<^verbatim>\<open>"Capture session stopped"\<close>, but its \<^verbatim>\<open>clearInterval(pollInterval)\<close> clears
  nothing: the loop is still running afterwards, and its next tick polls the server and
  overwrites the status.
\<close>

theorem stop_leaves_loop_running:
  "isCapturing session \<and> timers session = [(0, 1)] \<and>
   \<not> isCapturing (step (ClickStop ok_reply) session) \<and>
   status (step (ClickStop ok_reply) session) = ''Capture session stopped'' \<and>
   timers (step (ClickStop ok_reply) session) = [(0, 1)] \<and>
   status (run [ClickStop ok_reply, TimerFires 0 (Response True (Some counting_snapshot)) Rejected]
     session) = ''counting'' \<and>
   requests (run [ClickStop ok_reply, TimerFires 0 (Response True (Some counting_snapshot)) Rejected]
     session) = [GetImages, PostStartCapture, PostStopCapture, GetCaptureStatus]"
  by (simp add: session_eval concrete handlers setters Let_def)

text \<open>
  The same in general: in no reachable state does pressing the stop button cancel a
  loop, whatever the reply, because the button's handler reads the \<^verbatim>\<open>pollInterval\<close> of
  the latest render.
\<close>

lemma stop_click_clears_nothing:
  "timers (step (ClickStop resp) (run es initial)) = timers (run es initial)"
proof -
  have "consistent (run es initial)" by (rule consistent_reachable)
  then have "pollInterval (run es initial) (render (run es initial)) = None"
    by (simp add: consistent_def)
  then show ?thesis
    by (auto simp: rerender_def handlers setters Let_def split: response.splits)
qed

text \<open>
  Claim C3, evaluated on the code. After a stop the start button is back on screen while
  the first loop is still running: when the stop request fails, the \<^verbatim>\<open>catch\<close> block of
  \<^verbatim>\<open>stopCapture\<close> has no \<^verbatim>\<open>clearInterval\<close> at all, and when it succeeds, the
  \<^verbatim>\<open>clearInterval\<close> clears nothing (see C2). Pressing start again starts a second loop
  beside the first, and both poll.
\<close>

theorem two_loops_after_restart:
  "timers (run [ClickStop http_500, ClickStart ok_reply] session) = [(0, 1), (1, 3)] \<and>
   timers (run [ClickStop ok_reply, ClickStart ok_reply] session) = [(0, 1), (1, 3)] \<and>
   requests (run [ClickStop http_500, ClickStart ok_reply,
      TimerFires 0 (Response True (Some idle_snapshot)) Rejected,
      TimerFires 1 (Response True (Some idle_snapshot)) Rejected] session) =
     [GetImages, PostStartCapture, PostStopCapture, PostStartCapture,
      GetCaptureStatus, GetCaptureStatus]"
  by (simp add: session_eval concrete handlers setters Let_def)

text \<open>
  Claim C4. A tick that gets a snapshot replaces \<^verbatim>\<open>countdown\<close>, \<^verbatim>\<open>status\<close> and
  \<^verbatim>\<open>currentFrame\<close> by the snapshot's countdown, status and frame, whatever they were
  before; so where the snapshot's countdown or frame is null, the stored value becomes
  null.
\<close>

theorem tick_replaces_snapshot:
  assumes "delivered resp = Some data"
  shows "\<exists>w'. tick r resp ir w = Normal w' \<and> countdown w' = snap_countdown data \<and>
     status w' = snap_status data \<and> currentFrame w' = snap_frame data"
  using assms
  by (auto simp: delivered_def handlers setters Let_def
      split: response.splits if_splits option.splits)

theorem tick_replaces_snapshot_witness:
  "delivered (Response True (Some idle_snapshot)) = Some idle_snapshot \<and>
   countdown (session\<lparr>countdown := Some 3, currentFrame := Some ''AAAA''\<rparr>) = Some 3 \<and>
   (\<exists>w'. tick 1 (Response True (Some idle_snapshot)) Rejected
            (session\<lparr>countdown := Some 3, currentFrame := Some ''AAAA''\<rparr>) = Normal w' \<and>
      countdown w' = None \<and> status w' = ''idle'' \<and> currentFrame w' = None)"
proof -
  have a: "delivered (Response True (Some idle_snapshot)) = Some idle_snapshot"
    by (simp add: delivered_def)
  show ?thesis
    using a tick_replaces_snapshot [OF a, of 1 Rejected
        "session\<lparr>countdown := Some 3, currentFrame := Some ''AAAA''\<rparr>"]
    by (simp add: idle_snapshot_def)
qed

text \<open>
  Claim C5 as stated fails: the code keeps no record of the previous status. In the
  running session two ticks in a row report \<^verbatim>\<open>"captured"\<close>; that is one transition into
  \<^verbatim>\<open>"captured"\<close>, and \<^verbatim>\<open>fetchImages\<close> runs twice.
\<close>

theorem sync_per_transition_counterexample:
  "gallery_syncs
     (run [TimerFires 0 (Response True (Some captured_snapshot)) (Response True (Some [photo])),
           TimerFires 0 (Response True (Some captured_snapshot)) (Response True (Some [photo]))]
        session) - gallery_syncs session = 2 \<and>
   transitions_into_captured (status session)
     [snap_status captured_snapshot, snap_status captured_snapshot] = 1"
  by (simp add: session_eval concrete handlers setters Let_def gallery_syncs_def)

text \<open>
  Claim C5, amended. A tick that gets a snapshot runs \<^verbatim>\<open>fetchImages\<close> exactly once if
  the snapshot's status is \<^verbatim>\<open>"captured"\<close> (also when the tick before reported
  \<^verbatim>\<open>"captured"\<close> already) and not at all otherwise; it leaves the polling loops running
  and \<^verbatim>\<open>isCapturing\<close> as it was, so a session that was capturing still is.
\<close>

theorem captured_tick_syncs_once:
  assumes "delivered resp = Some data"
  shows "\<exists>w'. tick r resp ir w = Normal w' \<and>
     gallery_syncs w' = gallery_syncs w + (if snap_status data = ''captured'' then 1 else 0) \<and>
     timers w' = timers w \<and> isCapturing w' = isCapturing w"
  using assms
  by (auto simp: delivered_def gallery_syncs_def handlers setters Let_def
      split: response.splits if_splits option.splits)

theorem captured_tick_syncs_once_witness:
  "delivered (Response True (Some captured_snapshot)) = Some captured_snapshot \<and>
   (\<exists>w'. tick 1 (Response True (Some captured_snapshot)) (Response True (Some [photo])) session =
            Normal w' \<and>
      gallery_syncs w' = 2 \<and> timers w' = [(0, 1)] \<and> isCapturing w')"
proof -
  have a: "delivered (Response True (Some captured_snapshot)) = Some captured_snapshot"
    by (simp add: delivered_def)
  from captured_tick_syncs_once [OF a, of 1 "Response True (Some [photo])" session]
  obtain w' where run: "tick 1 (Response True (Some captured_snapshot))
        (Response True (Some [photo])) session = Normal w'"
    and syncs: "gallery_syncs w' =
        gallery_syncs session + (if snap_status captured_snapshot = ''captured'' then 1 else 0)"
    and loops: "timers w' = timers session" and flag: "isCapturing w' = isCapturing session"
    by blast
  have "gallery_syncs w' = 2"
    using syncs by (simp add: session_eval captured_snapshot_def gallery_syncs_def)
  moreover have "timers w' = [(0, 1)]" using loops by (simp add: session_eval)
  moreover have "isCapturing w'" using flag by (simp add: session_eval)
  ultimately show ?thesis using a run by blast
qed

text \<open>
  Claim C6. When the start request fails (transport error or non-2xx response),
  \<^verbatim>\<open>startCapture\<close> returns normally with the status \<^verbatim>\<open>"Failed to start capture"\<close>, an
  error message and \<^verbatim>\<open>isCapturing\<close> false; it registers no interval, and the only
  request it issues is the start request, so no poll request comes from it.
\<close>

theorem start_failure:
  assumes "\<not> accepted resp"
  shows "\<exists>w'. startCapture r resp w = Normal w' \<and> status w' = ''Failed to start capture'' \<and>
     error w' = Some ''Unable to start capture. Please make sure the backend server is running.'' \<and>
     \<not> isCapturing w' \<and> timers w' = timers w \<and> next_handle w' = next_handle w \<and>
     requests w' = requests w @ [PostStartCapture]"
  using assms
  by (auto simp: accepted_def handlers setters Let_def
      split: response.splits if_splits option.splits)

theorem start_failure_witness:
  "\<not> accepted (http_500 :: unit response) \<and>
   (\<exists>w'. startCapture 0 http_500 initial = Normal w' \<and> status w' = ''Failed to start capture'' \<and>
      error w' = Some ''Unable to start capture. Please make sure the backend server is running.'' \<and>
      \<not> isCapturing w' \<and> timers w' = [] \<and> requests w' = [PostStartCapture])"
proof -
  have a: "\<not> accepted (http_500 :: unit response)"
    by (simp add: accepted_def http_500_def)
  from start_failure [OF a, of 0 initial]
  obtain w' where run: "startCapture 0 http_500 initial = Normal w'"
    and shown: "status w' = ''Failed to start capture''"
      "error w' = Some ''Unable to start capture. Please make sure the backend server is running.''"
      "\<not> isCapturing w'"
    and loops: "timers w' = timers initial"
    and sent: "requests w' = requests initial @ [PostStartCapture]"
    by blast
  have "timers w' = []" using loops by (simp add: initial_def)
  moreover have "requests w' = [PostStartCapture]" using sent by (simp add: initial_def)
  ultimately show ?thesis using a run shown by blast
qed

text \<open>
  Claim C7. When the request for the images fails (transport error, non-2xx response, or
  a body that is not JSON), \<^verbatim>\<open>fetchImages\<close> sets the error about being unable to
  connect to the photo booth server and leaves the images as they were; when it succeeds,
  the images are exactly the fetched ones.
\<close>

theorem fetchImages_outcomes:
  "(delivered resp = None \<longrightarrow>
      (\<exists>w'. fetchImages resp w = Normal w' \<and>
         error w' = Some ''Unable to connect to the photo booth server. Please make sure the backend server is running.'' \<and>
         capturedImages w' = capturedImages w)) \<and>
   (\<forall>data. delivered resp = Some data \<longrightarrow>
      (\<exists>w'. fetchImages resp w = Normal w' \<and> capturedImages w' = data))"
  by (auto simp: delivered_def handlers setters Let_def
      split: response.splits if_splits option.splits)

theorem fetchImages_outcomes_witness:
  "delivered (Rejected :: CapturedImage list response) = None \<and>
   (\<exists>w'. fetchImages Rejected (session\<lparr>capturedImages := [photo]\<rparr>) = Normal w' \<and>
      error w' = Some ''Unable to connect to the photo booth server. Please make sure the backend server is running.'' \<and>
      capturedImages w' = [photo]) \<and>
   delivered (Response True (Some ([] :: CapturedImage list))) = Some [] \<and>
   (\<exists>w'. fetchImages (Response True (Some [])) (session\<lparr>capturedImages := [photo]\<rparr>) = Normal w' \<and>
      capturedImages w' = [])"
proof -
  have a: "delivered (Rejected :: CapturedImage list response) = None"
    by (simp add: delivered_def)
  have b: "delivered (Response True (Some ([] :: CapturedImage list))) = Some []"
    by (simp add: delivered_def)
  show ?thesis
    using a b
      fetchImages_outcomes [of Rejected "session\<lparr>capturedImages := [photo]\<rparr>"]
      fetchImages_outcomes [of "Response True (Some [])" "session\<lparr>capturedImages := [photo]\<rparr>"]
    by simp
qed

text \<open>
  Claim C8 as stated fails, in two ways. The poll tick never clears the error itself: in
  the running session a tick reports \<^verbatim>\<open>"captured"\<close> and the gallery request it triggers
  fails, which sets the error; the next tick succeeds with status \<^verbatim>\<open>"idle"\<close> and the
  error is still there. And the other handlers clear the error when they are called, not
  when their reply arrives: the user presses stop, a tick of the loop fails while the stop
  request is outstanding, the stop request then succeeds, and the tick's error is shown
  after the successful stop.
\<close>

theorem tick_keeps_error_counterexample:
  "error (step (TimerFires 0 (Response True (Some captured_snapshot)) Rejected) session) =
     Some ''Unable to connect to the photo booth server. Please make sure the backend server is running.'' \<and>
   delivered (Response True (Some idle_snapshot)) = Some idle_snapshot \<and>
   error (run [TimerFires 0 (Response True (Some captured_snapshot)) Rejected,
       TimerFires 0 (Response True (Some idle_snapshot)) Rejected] session) =
     Some ''Unable to connect to the photo booth server. Please make sure the backend server is running.'' \<and>
   accepted ok_reply \<and>
   error (settled (stopCapture_resume 2 ok_reply
       (settled (tick_resume 1 http_500 (tick_begin (stopCapture_begin session)))))) =
     Some ''Lost connection to the photo booth server.''"
  by (simp add: session_eval concrete handlers setters Let_def delivered_def accepted_def)

text \<open>
  Claim C8, amended. \<^verbatim>\<open>startCapture\<close>, \<^verbatim>\<open>stopCapture\<close> and \<^verbatim>\<open>fetchImages\<close> clear
  the error when they are called, before their request is sent. When the reply arrives,
  a success leaves the error as it is then (absent, unless another call has failed in
  the meantime), and a failure sets that call's own message, whatever the error was. A
  poll tick never clears the error itself: on failure it sets its own message, and on
  success it leaves the error as it is, unless the snapshot's status is \<^verbatim>\<open>"captured"\<close>,
  in which case the \<^verbatim>\<open>fetchImages\<close> it calls clears the error. The error is one field,
  so a new message replaces the previous one.
\<close>

theorem error_after_call:
  "error (startCapture_begin w) = None \<and>
   error (stopCapture_begin w) = None \<and>
   error (fetchImages_begin w) = None \<and>
   (accepted resp \<longrightarrow>
      error (settled (startCapture_resume r resp w)) = error w \<and>
      error (settled (stopCapture_resume r resp w)) = error w) \<and>
   (\<not> accepted resp \<longrightarrow>
      error (settled (startCapture_resume r resp w)) =
        Some ''Unable to start capture. Please make sure the backend server is running.'' \<and>
      error (settled (stopCapture_resume r resp w)) =
        Some ''Unable to stop capture. Please make sure the backend server is running.'') \<and>
   error (settled (fetchImages_resume ir w)) =
     (if delivered ir = None
      then Some ''Unable to connect to the photo booth server. Please make sure the backend server is running.''
      else error w) \<and>
   error (tick_begin w) = error w \<and>
   (delivered sresp = None \<longrightarrow>
      error (settled (tick_resume r sresp w)) =
        Some ''Lost connection to the photo booth server.'') \<and>
   (\<forall>data. delivered sresp = Some data \<longrightarrow>
      error (settled (tick_resume r sresp w)) =
        (if snap_status data = ''captured'' then None else error w))"
  by (auto simp: accepted_def delivered_def handlers setters Let_def
      split: response.splits if_splits option.splits)

text \<open>
  With nothing else running while the request is outstanding, the error is therefore
  absent after a successful \<^verbatim>\<open>startCapture\<close>, \<^verbatim>\<open>stopCapture\<close> or \<^verbatim>\<open>fetchImages\<close>.
\<close>

lemma error_absent_when_uninterrupted:
  "accepted ureply \<Longrightarrow> error (settled (startCapture r ureply w)) = None"
  "accepted ureply \<Longrightarrow> error (settled (stopCapture r ureply w)) = None"
  "delivered resp = Some data \<Longrightarrow> error (settled (fetchImages resp w)) = None"
  by (auto simp: accepted_def delivered_def handlers setters Let_def
      split: response.splits if_splits option.splits)

theorem error_after_call_witness:
  "error (startCapture_begin (session\<lparr>error := Some ''old''\<rparr>)) = None \<and>
   error (stopCapture_begin (session\<lparr>error := Some ''old''\<rparr>)) = None \<and>
   error (fetchImages_begin (session\<lparr>error := Some ''old''\<rparr>)) = None \<and>
   accepted ok_reply \<and>
   error (settled (startCapture_resume 1 ok_reply (session\<lparr>error := Some ''old''\<rparr>))) =
     Some ''old'' \<and>
   error (settled (stopCapture_resume 1 ok_reply (session\<lparr>error := Some ''old''\<rparr>))) =
     Some ''old'' \<and>
   \<not> accepted (http_500 :: unit response) \<and>
   error (settled (startCapture_resume 1 http_500 (session\<lparr>error := Some ''old''\<rparr>))) =
     Some ''Unable to start capture. Please make sure the backend server is running.'' \<and>
   error (settled (stopCapture_resume 1 http_500 (session\<lparr>error := Some ''old''\<rparr>))) =
     Some ''Unable to stop capture. Please make sure the backend server is running.'' \<and>
   delivered (http_500 :: CaptureStatus response) = None \<and>
   error (tick_begin (session\<lparr>error := Some ''old''\<rparr>)) = Some ''old'' \<and>
   error (settled (tick_resume 1 http_500 (session\<lparr>error := Some ''old''\<rparr>))) =
     Some ''Lost connection to the photo booth server.'' \<and>
   delivered (Response True (Some idle_snapshot)) = Some idle_snapshot \<and>
   error (settled (tick_resume 1 (Response True (Some idle_snapshot))
     (session\<lparr>error := Some ''old''\<rparr>))) = Some ''old''"
proof -
  have a: "accepted ok_reply" "\<not> accepted (http_500 :: unit response)"
    by (simp_all add: accepted_def ok_reply_def http_500_def)
  have b: "delivered (http_500 :: CaptureStatus response) = None"
    "delivered (Response True (Some idle_snapshot)) = Some idle_snapshot"
    by (simp_all add: delivered_def http_500_def)
  have c: "snap_status idle_snapshot \<noteq> ''captured''"
    by (simp add: idle_snapshot_def)
  have d: "error (session\<lparr>error := Some ''old''\<rparr>) = Some ''old''"
    by simp
  show ?thesis
    using a b c d
      error_after_call [of "session\<lparr>error := Some ''old''\<rparr>" ok_reply 1 Rejected
        "Response True (Some idle_snapshot)"]
      error_after_call [of "session\<lparr>error := Some ''old''\<rparr>" "http_500 :: unit response" 1
        Rejected "http_500 :: CaptureStatus response"]
    by simp
qed

text \<open>
  Claim C9. When no session is active (\<^verbatim>\<open>isCapturing\<close> is false), \<^verbatim>\<open>stopCapture\<close>
  completes normally, whatever the reply to the stop request and whichever render's
  handler is called: every throw inside it is caught by its own \<^verbatim>\<open>catch\<close> block, and
  \<^verbatim>\<open>clearInterval\<close> accepts an undefined or inactive handle. It leaves \<^verbatim>\<open>isCapturing\<close>
  false.
\<close>

theorem stop_when_idle:
  assumes "\<not> isCapturing w"
  shows "\<exists>w'. stopCapture r resp w = Normal w' \<and> \<not> isCapturing w'"
  using assms
  by (auto simp: handlers setters Let_def split: response.splits if_splits option.splits)

text \<open>
  Stop after stop: the session has been stopped, its loop is still registered, and
  \<^verbatim>\<open>stopCapture\<close> runs again, once with a 200 and once with the transport failing.
\<close>

theorem stop_when_idle_witness:
  "\<not> isCapturing (step (ClickStop ok_reply) session) \<and>
   timers (step (ClickStop ok_reply) session) = [(0, 1)] \<and>
   (\<exists>w'. stopCapture 3 ok_reply (step (ClickStop ok_reply) session) = Normal w' \<and>
      \<not> isCapturing w') \<and>
   (\<exists>w'. stopCapture 3 Rejected (step (ClickStop ok_reply) session) = Normal w' \<and>
      \<not> isCapturing w')"
proof -
  have a: "\<not> isCapturing (step (ClickStop ok_reply) session)"
    by (simp add: session_eval concrete handlers setters Let_def)
  have b: "timers (step (ClickStop ok_reply) session) = [(0, 1)]"
    by (simp add: session_eval concrete handlers setters Let_def)
  show ?thesis
    using a b stop_when_idle [OF a, of 3 ok_reply] stop_when_idle [OF a, of 3 Rejected]
    by blast
qed

text \<open>
  Claim C10. \<^verbatim>\<open>openModal(image)\<close> sets \<^verbatim>\<open>selectedImage\<close> to the image and
  \<^verbatim>\<open>closeModal()\<close> sets it to null; neither changes \<^verbatim>\<open>isCapturing\<close>, \<^verbatim>\<open>countdown\<close>,
  \<^verbatim>\<open>status\<close>, \<^verbatim>\<open>currentFrame\<close>, \<^verbatim>\<open>error\<close> or the images.
\<close>

theorem modal_frame:
  "selectedImage (openModal img w) = Some img \<and>
   isCapturing (openModal img w) = isCapturing w \<and>
   countdown (openModal img w) = countdown w \<and>
   status (openModal img w) = status w \<and>
   currentFrame (openModal img w) = currentFrame w \<and>
   error (openModal img w) = error w \<and>
   capturedImages (openModal img w) = capturedImages w \<and>
   selectedImage (closeModal w) = None \<and>
   isCapturing (closeModal w) = isCapturing w \<and>
   countdown (closeModal w) = countdown w \<and>
   status (closeModal w) = status w \<and>
   currentFrame (closeModal w) = currentFrame w \<and>
   error (closeModal w) = error w \<and>
   capturedImages (closeModal w) = capturedImages w"
  by (simp add: openModal_def closeModal_def setters)

end
